theory Spec2Isabelle
  imports Main
begin

section \<open>port_utils.py: parsing a port specification\<close>

text \<open>
  A Python \<open>str\<close> is modelled as a \<open>string\<close> whose characters are the code points
  below 256. The built-ins that \<open>parse_ports\<close> calls are written out on that range:
  \<open>str.strip()\<close>, \<open>str.split(sep)\<close> with a one-character separator, and \<open>int(str)\<close>.
\<close>

subsection \<open>The built-ins used by the parser\<close>

text \<open>\<open>str.isspace\<close> on one character: the characters \<open>str.strip()\<close> removes.\<close>

definition py_isspace :: "char \<Rightarrow> bool" where
  "py_isspace c =
     (let n = (of_char c :: nat)
      in (9 \<le> n \<and> n \<le> 13) \<or> (28 \<le> n \<and> n \<le> 32) \<or> n = 133 \<or> n = 160)"

definition strip :: "string \<Rightarrow> string" where
  "strip s = rev (dropWhile py_isspace (rev (dropWhile py_isspace s)))"

text \<open>\<open>s.split(sep)\<close>: every occurrence of the separator cuts, empty pieces are kept.\<close>

fun str_split :: "char \<Rightarrow> string \<Rightarrow> string list" where
  "str_split sep [] = [[]]"
| "str_split sep (c # cs) =
     (if c = sep then [] # str_split sep cs
      else (case str_split sep cs of
              [] \<Rightarrow> [[c]]
            | w # ws \<Rightarrow> (c # w) # ws))"

text \<open>
  \<open>int(s)\<close> in base ten, \<open>None\<close> standing for the \<open>ValueError\<close> it raises: blanks are
  dropped at both ends (the blanks of \<open>int\<close> are fewer than those of \<open>strip\<close>: the
  separators 28 to 31 are not among them), one sign may lead, and the digits may be
  grouped by single underscores. The interpreter refuses a literal of more than
  \<open>int_max_str_digits\<close> digits (4300 unless reconfigured).
\<close>

definition int_isspace :: "char \<Rightarrow> bool" where
  "int_isspace c =
     (let n = (of_char c :: nat)
      in (9 \<le> n \<and> n \<le> 13) \<or> n = 32 \<or> n = 133 \<or> n = 160)"

definition is_digit :: "char \<Rightarrow> bool" where
  "is_digit c = (let n = (of_char c :: nat) in 48 \<le> n \<and> n \<le> 57)"

definition digit_val :: "char \<Rightarrow> int" where
  "digit_val c = int (of_char c) - 48"

definition int_max_str_digits :: nat where
  "int_max_str_digits = 4300"

definition int_digits :: "string \<Rightarrow> int option" where
  "int_digits s =
     (let groups = str_split (CHR ''_'') s
      in if list_all (\<lambda>g. g \<noteq> [] \<and> list_all is_digit g) groups
            \<and> length (concat groups) \<le> int_max_str_digits
         then Some (foldl (\<lambda>a c. 10 * a + digit_val c) 0 (concat groups))
         else None)"

definition py_int :: "string \<Rightarrow> int option" where
  "py_int s =
     (let t = rev (dropWhile int_isspace (rev (dropWhile int_isspace s)))
      in case t of
           [] \<Rightarrow> None
         | c # r \<Rightarrow>
             if c = CHR ''-'' then map_option uminus (int_digits r)
             else if c = CHR ''+'' then int_digits r
             else int_digits t)"

subsection \<open>parse_ports\<close>

text \<open>
  Every \<open>raise ValueError(...)\<close> of \<open>parse_ports\<close> is one constructor; it carries
  the token or the number that the message interpolates.
\<close>

datatype error =
    Invalid_range_format string
  | Non_numeric_range string
  | Port_range_out_of_bounds string
  | Invalid_port string
  | Port_number_out_of_range int

text \<open>
  The body of the loop over the tokens: \<open>final_ports\<close> is the set built so far,
  \<open>Inl\<close> is the \<open>ValueError\<close> that leaves the function.
\<close>

definition parse_token :: "string \<Rightarrow> int set \<Rightarrow> error + int set" where
  "parse_token token final_ports =
     (if CHR ''-'' \<in> set token then
        (let parts = str_split (CHR ''-'') token
         in if length parts \<noteq> 2 then Inl (Invalid_range_format token)
            else (case py_int (parts ! 0) of
                    None \<Rightarrow> Inl (Non_numeric_range token)
                  | Some start \<Rightarrow>
                      (case py_int (parts ! 1) of
                         None \<Rightarrow> Inl (Non_numeric_range token)
                       | Some stop \<Rightarrow>
                           if start < 1 \<or> stop > 65535 \<or> start > stop
                           then Inl (Port_range_out_of_bounds token)
                           else Inr (final_ports \<union> set [start..stop]))))
      else (case py_int token of
              None \<Rightarrow> Inl (Invalid_port token)
            | Some p \<Rightarrow>
                if p < 1 \<or> p > 65535 then Inl (Port_number_out_of_range p)
                else Inr (insert p final_ports)))"

fun parse_tokens :: "string list \<Rightarrow> int set \<Rightarrow> error + int set" where
  "parse_tokens [] final_ports = Inr final_ports"
| "parse_tokens (token # rest) final_ports =
     (case parse_token token final_ports of
        Inl e \<Rightarrow> Inl e
      | Inr final_ports' \<Rightarrow> parse_tokens rest final_ports')"

text \<open>\<open>port_spec\<close> is \<open>str | None\<close>; \<open>not port_spec\<close> holds of \<open>None\<close> and of the empty string.\<close>

definition parse_ports :: "string option \<Rightarrow> error + int list" where
  "parse_ports port_spec =
     (case port_spec of
        None \<Rightarrow> Inr [21, 22, 23, 25, 53, 80, 443]
      | Some s \<Rightarrow>
          if s = [] then Inr [21, 22, 23, 25, 53, 80, 443]
          else
            (let split_by_comma = map strip (str_split (CHR '','') s)
             in case parse_tokens split_by_comma {} of
                  Inl e \<Rightarrow> Inl e
                | Inr final_ports \<Rightarrow> Inr (sorted_list_of_set final_ports)))"

section \<open>scanner.py: the connect scan\<close>

subsection \<open>The world a probe runs in\<close>

text \<open>
  The exceptions that the handlers of \<open>worker\<close> tell apart: the two it names, and any
  other \<open>Exception\<close>, which carries the text that \<open>str(e)\<close> gives. The source uses the
  two names without binding them; they are taken as bound to two exception classes.
\<close>

datatype exn =
    timeout_exception
  | connection_refused_exception
  | other_exception string

text \<open>
  \<open>connect_scan\<close> never inspects its \<open>target\<close>: it stores it in the records and hands it
  to \<open>connect\<close>. Python puts no type on it, so the type of targets is a parameter
  \<open>'t\<close>: a host name is a \<open>string\<close>, a list of hosts a \<open>string list\<close>.

  What a probe does to the outside is recorded as events, in order; the clock is read
  by \<open>now()\<close> and \<open>time.time()\<close>, and each reading advances it.
\<close>

datatype 't event =
    socket_created
  | connect_attempt 't int
  | banner_read 't int
  | socket_closed

record 't world =
  clock_reads :: nat
  io_log :: "'t event list"

text \<open>
  The network and the helpers that \<open>scanner.py\<close> calls without defining them are
  parameters: the reading of the clock, whether the call \<open>socket.socket(...)\<close> itself
  raises, what \<open>s.connect((target, port))\<close> raises within the timeout (\<open>None\<close>: it
  connects), and what \<open>banner_grab\<close> returns or raises.
\<close>

record 't net =
  now_at :: "nat \<Rightarrow> int"
  sock_create :: "exn option"
  sock_connect :: "'t \<Rightarrow> int \<Rightarrow> exn option"
  banner_grab :: "'t \<Rightarrow> int \<Rightarrow> exn + string option"

definition now :: "'t net \<Rightarrow> 't world \<Rightarrow> int \<times> 't world" where
  "now env w = (now_at env (clock_reads w), w\<lparr>clock_reads := Suc (clock_reads w)\<rparr>)"

definition emit :: "'t event \<Rightarrow> 't world \<Rightarrow> 't world" where
  "emit e w = w\<lparr>io_log := io_log w @ [e]\<rparr>"

text \<open>
  Attribute lookup in the standard \<open>socket\<close> module. Of the names that line 16 of the
  source can mean, the module has \<open>socket\<close>, \<open>AF_INET\<close> and \<open>SOCK_STREAM\<close>; looking up
  any other name, \<open>SOCKSTREAM\<close> among them, raises \<open>AttributeError\<close> with the text
  below.
\<close>

definition socket_names :: "string list" where
  "socket_names = [''socket'', ''AF_INET'', ''SOCK_STREAM'']"

definition quoted :: "string \<Rightarrow> string" where
  "quoted s = CHR 0x27 # s @ [CHR 0x27]"

definition attribute_error_text :: "string \<Rightarrow> string" where
  "attribute_error_text name =
     ''module '' @ quoted ''socket'' @ '' has no attribute '' @ quoted name"

definition socket_getattr :: "string \<Rightarrow> exn option" where
  "socket_getattr name =
     (if name \<in> set socket_names then None
      else Some (other_exception (attribute_error_text name)))"

text \<open>The record that the dry run appends to \<open>results\<close>.\<close>

record 't ScanResult =
  target :: 't
  port :: int
  status :: string
  latency_ms :: "int option"
  banner :: "string option"
  timestamp :: int

subsection \<open>worker\<close>

text \<open>Python's \<open>a or b\<close> on strings: \<open>a\<close> unless it is empty.\<close>

definition py_or :: "string \<Rightarrow> string \<Rightarrow> string" where
  "py_or a b = (if a \<noteq> [] then a else b)"

text \<open>
  The values of the local variables \<open>(status, latency, banner_text)\<close> of \<open>worker\<close>.
\<close>

type_synonym locals = "string \<times> int option \<times> string option"

text \<open>
  The body of the \<open>with\<close> block, run on a socket that exists. \<open>settimeout\<close> raises
  \<open>ValueError\<close> on a negative timeout and \<open>OverflowError\<close> on one of more than
  9223372036 seconds, which no 64-bit count of nanoseconds holds.
\<close>

definition with_body ::
  "'t net \<Rightarrow> 't \<Rightarrow> int \<Rightarrow> bool \<Rightarrow> int \<Rightarrow> 't world \<Rightarrow> (exn + locals) \<times> 't world" where
  "with_body env tgt timeout want_banner p w =
     (if timeout < 0 then (Inl (other_exception ''Timeout value out of range''), w)
      else if 9223372036 < timeout
      then (Inl (other_exception ''timestamp too large to convert to C _PyTime_t''), w)
      else
        (let (start, w1) = now env w;
             w2 = emit (connect_attempt tgt p) w1
         in case sock_connect env tgt p of
              Some e \<Rightarrow> (Inl e, w2)
            | None \<Rightarrow>
                (let (stop, w3) = now env w2;
                     latency = (stop - start) * 1000
                 in if want_banner then
                      (let w4 = emit (banner_read tgt p) w3
                       in case banner_grab env tgt p of
                            Inl e \<Rightarrow> (Inl e, w4)
                          | Inr banner_text \<Rightarrow> (Inr (''open'', Some latency, banner_text), w4))
                    else (Inr (''open'', Some latency, None), w3))))"

text \<open>The three \<open>except\<close> clauses, in the order of the source.\<close>

fun handlers :: "exn + locals \<Rightarrow> exn + locals" where
  "handlers (Inr l) = Inr l"
| "handlers (Inl timeout_exception) = Inr (py_or ''filtered'' ''closed'', None, None)"
| "handlers (Inl connection_refused_exception) = Inr (''closed'', None, None)"
| "handlers (Inl (other_exception msg)) = Inr (''error'', None, Some msg)"

text \<open>
  The \<open>try\<close> statement of \<open>worker\<close>. Line 16 first evaluates \<open>socket.socket\<close>,
  \<open>socket.AF_INET\<close> and \<open>socket.SOCKSTREAM\<close>, in this order; only when all three exist
  is the socket created, the \<open>with\<close> block run and the socket closed on every way out
  of it. Then the handlers.
\<close>

definition worker_try ::
  "'t net \<Rightarrow> 't \<Rightarrow> int \<Rightarrow> bool \<Rightarrow> int \<Rightarrow> 't world \<Rightarrow> (exn + locals) \<times> 't world" where
  "worker_try env tgt timeout want_banner p w =
     (let (r, w') =
            (case socket_getattr ''socket'' of
               Some e \<Rightarrow> (Inl e, w)
             | None \<Rightarrow>
            (case socket_getattr ''AF_INET'' of
               Some e \<Rightarrow> (Inl e, w)
             | None \<Rightarrow>
            (case socket_getattr ''SOCKSTREAM'' of
               Some e \<Rightarrow> (Inl e, w)
             | None \<Rightarrow>
            (case sock_create env of
               Some e \<Rightarrow> (Inl e, w)
             | None \<Rightarrow>
                 (let (r, w1) = with_body env tgt timeout want_banner p (emit socket_created w)
                  in (r, emit socket_closed w1))))))
      in (handlers r, w'))"

text \<open>
  \<open>worker\<close> reads the clock, runs the \<open>try\<close> statement and ends in a bare \<open>return\<close>:
  its value is Python's \<open>None\<close>, here the \<open>None\<close> of \<open>ScanResult option\<close>.
\<close>

definition worker ::
  "'t net \<Rightarrow> 't \<Rightarrow> int \<Rightarrow> bool \<Rightarrow> int \<Rightarrow> 't world \<Rightarrow> (exn + 't ScanResult option) \<times> 't world" where
  "worker env tgt timeout want_banner p w =
     (let (start_time, w0) = now env w;
          (r, w1) = worker_try env tgt timeout want_banner p w0
      in case r of
           Inl e \<Rightarrow> (Inl e, w1)
         | Inr l \<Rightarrow> (Inr None, w1))"

subsection \<open>connect_scan\<close>

text \<open>
  The loop of the dry run. Its body appends one record and returns \<open>results\<close>, so the
  first port ends the function (\<open>Some\<close>); only an empty port list lets the loop run out
  (\<open>None\<close>).
\<close>

fun dry_run_loop ::
  "'t net \<Rightarrow> 't \<Rightarrow> int list \<Rightarrow> 't ScanResult list \<Rightarrow> 't world
     \<Rightarrow> 't ScanResult list option \<times> 't world" where
  "dry_run_loop env tgt [] results w = (None, w)"
| "dry_run_loop env tgt (p # rest) results w =
     (let (t, w') = now env w
      in (Some (results @ [\<lparr>target = tgt, port = p, status = ''simulated'',
                             latency_ms = None, banner = None, timestamp = t\<rparr>]), w'))"

text \<open>
  After the dry-run branch the function defines \<open>worker\<close> and ends: \<open>worker\<close> is never
  called and \<open>concurrency\<close> is never read, and the value is Python's \<open>None\<close>.
\<close>

definition connect_scan ::
  "'t net \<Rightarrow> 't \<Rightarrow> int list \<Rightarrow> int \<Rightarrow> int \<Rightarrow> bool \<Rightarrow> bool \<Rightarrow> 't world
     \<Rightarrow> (exn + 't ScanResult list option) \<times> 't world" where
  "connect_scan env tgt ports timeout concurrency dry_run want_banner w =
     (let results = []
      in case (if dry_run then dry_run_loop env tgt ports results w else (None, w)) of
           (Some returned, w') \<Rightarrow> (Inr (Some returned), w')
         | (None, w') \<Rightarrow> (Inr None, w'))"

subsection \<open>A concrete network\<close>

text \<open>
  On this network port 22 refuses, port 9999 never answers, port 53 is unreachable and
  every other port accepts, whatever the target.
\<close>

definition example_net :: "'t net" where
  "example_net =
     \<lparr>now_at = (\<lambda>n. int n),
      sock_create = None,
      sock_connect = (\<lambda>t p. if p = 22 then Some connection_refused_exception
                             else if p = 9999 then Some timeout_exception
                             else if p = 53 then Some (other_exception ''Network is unreachable'')
                             else None),
      banner_grab = (\<lambda>t p. Inr None)\<rparr>"

definition world0 :: "'t world" where
  "world0 = \<lparr>clock_reads = 0, io_log = []\<rparr>"

section \<open>Notions used to state the properties\<close>

text \<open>
  A token is malformed when it is neither an integer literal nor two integer literals
  joined by one hyphen; it is out of range when a number it names lies outside
  1 to 65535.
\<close>

definition out_of_range :: "int \<Rightarrow> bool" where
  "out_of_range p = (p < 1 \<or> 65535 < p)"

definition malformed_token :: "string \<Rightarrow> bool" where
  "malformed_token t =
     (if CHR ''-'' \<in> set t then
        (case str_split (CHR ''-'') t of
           [a, b] \<Rightarrow> py_int a = None \<or> py_int b = None
         | _ \<Rightarrow> True)
      else py_int t = None)"

definition out_of_range_token :: "string \<Rightarrow> bool" where
  "out_of_range_token t =
     (if CHR ''-'' \<in> set t then
        (case str_split (CHR ''-'') t of
           [a, b] \<Rightarrow>
             (case py_int a of
                None \<Rightarrow> False
              | Some x \<Rightarrow>
                  (case py_int b of
                     None \<Rightarrow> False
                   | Some y \<Rightarrow> out_of_range x \<or> out_of_range y))
         | _ \<Rightarrow> False)
      else (case py_int t of
              None \<Rightarrow> False
            | Some p \<Rightarrow> out_of_range p))"

section \<open>Properties of parse_ports\<close>

lemma parse_token_keeps_ports:
  assumes "parse_token t fp = Inr fp'" "finite fp" "\<forall>p\<in>fp. 1 \<le> p \<and> p \<le> 65535"
  shows "finite fp' \<and> (\<forall>p\<in>fp'. 1 \<le> p \<and> p \<le> 65535)"
  using assms
  by (auto simp: parse_token_def Let_def split: if_splits option.splits)

lemma parse_tokens_keeps_ports:
  "parse_tokens ts fp = Inr fp' \<Longrightarrow> finite fp \<Longrightarrow> \<forall>p\<in>fp. 1 \<le> p \<and> p \<le> 65535
     \<Longrightarrow> finite fp' \<and> (\<forall>p\<in>fp'. 1 \<le> p \<and> p \<le> 65535)"
proof (induction ts arbitrary: fp)
  case Nil
  then show ?case by simp
next
  case (Cons t ts)
  from Cons.prems(1) obtain mid where
    step: "parse_token t fp = Inr mid" and rest: "parse_tokens ts mid = Inr fp'"
    by (auto split: sum.splits)
  from parse_token_keeps_ports [OF step Cons.prems(2) Cons.prems(3)]
  have "finite mid" and "\<forall>p\<in>mid. 1 \<le> p \<and> p \<le> 65535" by simp_all
  with Cons.IH [OF rest] show ?case by simp
qed

lemma bad_token_raises:
  "malformed_token t \<or> out_of_range_token t \<Longrightarrow> \<exists>e. parse_token t fp = Inl e"
  by (auto simp: malformed_token_def out_of_range_token_def out_of_range_def parse_token_def Let_def
           split: if_splits option.splits list.splits)

lemma raising_token_stops_loop:
  "t \<in> set ts \<Longrightarrow> \<forall>fp. \<exists>e. parse_token t fp = Inl e \<Longrightarrow> \<exists>e. parse_tokens ts fp = Inl e"
proof (induction ts arbitrary: fp)
  case Nil
  then show ?case by simp
next
  case (Cons a ts)
  show ?case
  proof (cases "parse_token a fp")
    case (Inl e)
    then show ?thesis by simp
  next
    case (Inr mid)
    have "t \<noteq> a"
    proof
      assume "t = a"
      with Cons.prems(2) obtain e where "parse_token a fp = Inl e" by blast
      with Inr show False by simp
    qed
    with Cons.prems(1) have "t \<in> set ts" by simp
    from Cons.IH [OF this Cons.prems(2)] Inr show ?thesis by simp
  qed
qed

lemma parse_ports_example:
  "parse_ports (Some ''22,80,1000-1002'') = Inr [22, 80, 1000, 1001, 1002]"
  by code_simp

text \<open>
  C9. Whenever \<open>parse_ports\<close> accepts a non-empty specification, the list it returns is
  sorted, has no duplicates and holds only integers from 1 to 65535; the specification
  \<open>22,80,1000-1002\<close> gives \<open>[22, 80, 1000, 1001, 1002]\<close>; and whenever one of the tokens
  of the specification is malformed or names a value out of range, \<open>parse_ports\<close>
  raises \<open>ValueError\<close> and returns no list.
\<close>

theorem parse_ports_sorted_unique_in_range:
  assumes "s \<noteq> []"
  shows "(\<forall>ps. parse_ports (Some s) = Inr ps \<longrightarrow>
            sorted ps \<and> distinct ps \<and> list_all (\<lambda>p. 1 \<le> p \<and> p \<le> 65535) ps)
       \<and> (\<forall>t \<in> set (map strip (str_split (CHR '','') s)).
            malformed_token t \<or> out_of_range_token t \<longrightarrow> (\<exists>e. parse_ports (Some s) = Inl e))
       \<and> parse_ports (Some ''22,80,1000-1002'') = Inr [22, 80, 1000, 1001, 1002]"
proof (intro conjI allI ballI impI)
  fix ps assume ok: "parse_ports (Some s) = Inr ps"
  with assms obtain fp where
    loop: "parse_tokens (map strip (str_split (CHR '','') s)) {} = Inr fp"
    and ps: "ps = sorted_list_of_set fp"
    by (auto simp: parse_ports_def Let_def split: sum.splits)
  from parse_tokens_keeps_ports [OF loop]
  have fin: "finite fp" and rng: "\<forall>p\<in>fp. 1 \<le> p \<and> p \<le> 65535" by simp_all
  from fin ps show "sorted ps" by simp
  from fin ps show "distinct ps" by simp
  from fin ps rng show "list_all (\<lambda>p. 1 \<le> p \<and> p \<le> 65535) ps"
    by (simp add: list_all_iff)
next
  fix t assume t: "t \<in> set (map strip (str_split (CHR '','') s))"
    and bad: "malformed_token t \<or> out_of_range_token t"
  from bad have "\<forall>fp. \<exists>e. parse_token t fp = Inl e"
    using bad_token_raises by blast
  from raising_token_stops_loop [OF t this, of "{}"] assms
  show "\<exists>e. parse_ports (Some s) = Inl e"
    by (auto simp: parse_ports_def Let_def)
next
  show "parse_ports (Some ''22,80,1000-1002'') = Inr [22, 80, 1000, 1001, 1002]"
    by (rule parse_ports_example)
qed

theorem parse_ports_sorted_unique_in_range_witness:
  "''22,80,1000-1002'' \<noteq> []
   \<and> parse_ports (Some ''22,80,1000-1002'') = Inr [22, 80, 1000, 1001, 1002]
   \<and> sorted [22, 80, 1000, 1001, 1002 :: int] \<and> distinct [22, 80, 1000, 1001, 1002 :: int]
   \<and> list_all (\<lambda>p. 1 \<le> p \<and> p \<le> 65535) [22, 80, 1000, 1001, 1002 :: int]
   \<and> ''70000'' \<in> set (map strip (str_split (CHR '','') ''22, 70000,8o''))
   \<and> out_of_range_token ''70000''
   \<and> ''8o'' \<in> set (map strip (str_split (CHR '','') ''22, 70000,8o''))
   \<and> malformed_token ''8o''
   \<and> (\<exists>e. parse_ports (Some ''22, 70000,8o'') = Inl e)"
proof -
  have ne: "''22,80,1000-1002'' \<noteq> []" and ne': "''22, 70000,8o'' \<noteq> []" by simp_all
  have toks: "map strip (str_split (CHR '','') ''22, 70000,8o'') = [''22'', ''70000'', ''8o'']"
    by code_simp
  have bad: "out_of_range_token ''70000''" and bad': "malformed_token ''8o''"
    by code_simp+
  from parse_ports_sorted_unique_in_range [OF ne] parse_ports_sorted_unique_in_range [OF ne']
       toks bad bad'
  show ?thesis by auto
qed

text \<open>
  C10. Called with \<open>None\<close> or with the empty string, \<open>parse_ports\<close> neither raises nor
  returns an empty list: it returns the default ports \<open>[21, 22, 23, 25, 53, 80, 443]\<close>.
\<close>

theorem parse_ports_default:
  "parse_ports None = Inr [21, 22, 23, 25, 53, 80, 443]
   \<and> parse_ports (Some []) = Inr [21, 22, 23, 25, 53, 80, 443]"
  by (simp add: parse_ports_def)

section \<open>Properties of the connect scan\<close>

subsection \<open>What connect_scan returns\<close>


lemma connect_scan_dry_nil:
  "connect_scan env tgt [] timeout concurrency True want_banner w = (Inr None, w)"
  by (simp add: connect_scan_def)

lemma connect_scan_dry_cons:
  "connect_scan env tgt (p # rest) timeout concurrency True want_banner w =
     (Inr (Some [\<lparr>target = tgt, port = p, status = ''simulated'', latency_ms = None,
                   banner = None, timestamp = now_at env (clock_reads w)\<rparr>]),
      w\<lparr>clock_reads := Suc (clock_reads w)\<rparr>)"
  by (simp add: connect_scan_def now_def)

text \<open>
  C1. The scan is to return one record for each pair of a target and a port. Run dry on
  the target \<open>10.0.0.1\<close> and the ports 22 and 80, \<open>connect_scan\<close> returns after the first
  port, with the single record of port 22; run live on the same input it returns
  \<open>None\<close>, no record at all.
\<close>

theorem dry_run_stops_after_first_port:
  "fst (connect_scan example_net ''10.0.0.1'' [22, 80] 1 5 True False world0)
     = Inr (Some [\<lparr>target = ''10.0.0.1'', port = 22, status = ''simulated'',
                   latency_ms = None, banner = None, timestamp = 0\<rparr>])
   \<and> fst (connect_scan example_net ''10.0.0.1'' [22, 80] 1 5 False False world0) = Inr None"
  by (simp add: connect_scan_def now_def example_net_def world0_def)

text \<open>
  C3. With \<open>dry_run\<close> set, every record that \<open>connect_scan\<close> returns has the status
  \<open>simulated\<close>, no latency and no banner, and the call leaves the event log as it
  found it: no socket is created and nothing is sent.
\<close>

theorem dry_run_simulated_without_io:
  "io_log (snd (connect_scan env tgt ports timeout concurrency True want_banner w)) = io_log w
   \<and> (\<forall>rs. fst (connect_scan env tgt ports timeout concurrency True want_banner w) = Inr (Some rs)
         \<longrightarrow> list_all (\<lambda>r. status r = ''simulated'' \<and> latency_ms r = None \<and> banner r = None) rs)"
  by (cases ports) (simp_all add: connect_scan_dry_nil connect_scan_dry_cons)

theorem dry_run_simulated_without_io_witness:
  "fst (connect_scan example_net ''10.0.0.1'' [22, 80] 1 5 True True world0)
     = Inr (Some [\<lparr>target = ''10.0.0.1'', port = 22, status = ''simulated'',
                   latency_ms = None, banner = None, timestamp = 0\<rparr>])
   \<and> list_all (\<lambda>r. status r = ''simulated'' \<and> latency_ms r = None \<and> banner r = None)
        [\<lparr>target = ''10.0.0.1'', port = 22, status = ''simulated'',
          latency_ms = None, banner = None, timestamp = 0\<rparr>]
   \<and> io_log (snd (connect_scan example_net ''10.0.0.1'' [22, 80] 1 5 True True world0)) = []"
proof -
  have r: "fst (connect_scan example_net ''10.0.0.1'' [22, 80] 1 5 True True world0)
     = Inr (Some [\<lparr>target = ''10.0.0.1'', port = 22, status = ''simulated'',
                   latency_ms = None, banner = None, timestamp = 0\<rparr>])"
    by (simp add: connect_scan_def now_def example_net_def world0_def)
  from dry_run_simulated_without_io [of example_net "''10.0.0.1''" "[22, 80]" 1 5 True world0] r
  show ?thesis by (simp add: world0_def)
qed




subsection \<open>What worker computes and returns\<close>

lemma handlers_catch_all: "\<exists>l. handlers r = Inr l"
proof (cases r)
  case (Inl e)
  then show ?thesis by (cases e) simp_all
next
  case (Inr l)
  then show ?thesis by (cases l) simp
qed

lemma handlers_classify:
  "handlers (Inl timeout_exception) = Inr (''filtered'', None, None)"
  "handlers (Inl connection_refused_exception) = Inr (''closed'', None, None)"
  by (simp_all add: py_or_def)

lemma worker_try_always_error:
  "worker_try env tgt timeout want_banner p w
     = (Inr (''error'', None, Some (attribute_error_text ''SOCKSTREAM'')), w)"
  by (simp add: worker_try_def socket_getattr_def socket_names_def)

lemma worker_returns_none: "fst (worker env tgt timeout want_banner p w) = Inr None"
  by (simp add: worker_def worker_try_always_error split_beta Let_def)

text \<open>
  C2. A probe whose connection attempt times out is to give a record of status
  \<open>filtered\<close>, one that is refused a record of status \<open>closed\<close>. On the network where
  port 9999 never answers and port 22 refuses, \<open>worker\<close> reaches neither attempt: the
  lookup of \<open>socket.SOCKSTREAM\<close> raises first, the last handler sets the status
  \<open>error\<close> for both ports, and the bare \<open>return\<close> gives \<open>None\<close>, no record.
\<close>

theorem timeout_and_refusal_give_no_record:
  "sock_connect example_net ''10.0.0.1'' 9999 = Some timeout_exception
   \<and> fst (worker_try example_net ''10.0.0.1'' 1 False 9999 world0)
       = Inr (''error'', None, Some (attribute_error_text ''SOCKSTREAM''))
   \<and> fst (worker example_net ''10.0.0.1'' 1 False 9999 world0) = Inr None
   \<and> sock_connect example_net ''10.0.0.1'' 22 = Some connection_refused_exception
   \<and> fst (worker_try example_net ''10.0.0.1'' 1 True 22 world0)
       = Inr (''error'', None, Some (attribute_error_text ''SOCKSTREAM''))
   \<and> fst (worker example_net ''10.0.0.1'' 1 True 22 world0) = Inr None"
  by (simp add: worker_def worker_try_def socket_getattr_def socket_names_def now_def
      example_net_def world0_def split_beta Let_def)

text \<open>
  C4. The probe is to return one record for its port. On the network where port 22
  refuses, the \<open>try\<close> statement of \<open>worker\<close> ends with values bound to its status,
  latency and banner text, and then the bare \<open>return\<close> gives \<open>None\<close> to the caller:
  nothing is raised, and no record is returned.
\<close>

theorem worker_returns_no_record:
  "fst (worker example_net ''10.0.0.1'' 1 False 22 world0) = Inr None
   \<and> fst (worker_try example_net ''10.0.0.1'' 1 False 22 (snd (now example_net world0)))
       = Inr (''error'', None, Some (attribute_error_text ''SOCKSTREAM''))"
  by (simp add: worker_def worker_try_def socket_getattr_def socket_names_def now_def
      example_net_def world0_def split_beta Let_def)

text \<open>
  C8. A probe that fails for another reason than timeout or refusal is to give a
  record of status \<open>error\<close> that is kept with the results of the scan. On the network
  where port 53 is unreachable, \<open>worker\<close> sets the status \<open>error\<close> and a banner text,
  and then returns \<open>None\<close>: no record is made of the failure, and the live scan of
  port 53 returns \<open>None\<close> as well.
\<close>

theorem failed_probe_is_not_recorded:
  "sock_connect example_net ''10.0.0.1'' 53 = Some (other_exception ''Network is unreachable'')
   \<and> fst (worker_try example_net ''10.0.0.1'' 1 True 53 world0)
       = Inr (''error'', None, Some (attribute_error_text ''SOCKSTREAM''))
   \<and> fst (worker example_net ''10.0.0.1'' 1 True 53 world0) = Inr None
   \<and> fst (connect_scan example_net ''10.0.0.1'' [53] 1 5 False True world0) = Inr None"
  by (simp add: worker_def worker_try_def connect_scan_def socket_getattr_def socket_names_def
      now_def example_net_def world0_def split_beta Let_def)

end
